theory Spec2Isabelle
  imports Complex_Main "HOL-Library.Multiset" "HOL-Library.Sublist" "HOL-Library.Word"
begin

section \<open>Image recognition web application: services\<close>

text \<open>
  A shallow embedding of the Go services of the image recognition web application:
  the image processor (softmax, top-K selection), the image validator, the model
  registry with its usage statistics, and the prediction service with its in-memory
  result store.

  Conventions of the embedding.
  \<^item> Go's \<open>float32\<close> and \<open>float64\<close> values are real numbers; infinities and NaN are not
    represented. In \<open>applySoftmax\<close> every \<open>float32\<close> operation is followed by an explicit
    rounding function \<open>rnd32\<close>, and \<open>math.Exp\<close> is a function \<open>mathExp\<close>; both are
    parameters, collected in a record \<open>float_ops\<close>. \<open>exact_ops\<close> is the instance without
    rounding. The \<open>float64\<close> code of the registry and of the prediction service is
    modelled in exact arithmetic.
  \<^item> Go's \<open>int\<close> and \<open>int64\<close> counters are unbounded integers: the counters of the
    registry grow by one per call and start at zero, so the wrap-around at \<open>2^63\<close> is
    out of reach.
  \<^item> An instant of \<open>time.Time\<close> is an integer number of nanoseconds, and so is a
    \<open>time.Duration\<close>; \<open>time.Now()\<close> is an argument of every operation that reads the clock.
  \<^item> A panic and an error return are both values of the type \<open>error\<close>.
\<close>

subsection \<open>Errors\<close>

datatype error =
    PanicIndexOutOfRange
  | ErrLengthMismatch nat nat
  | ErrFileTooLarge int int
  | ErrUnsupportedFileType string
  | ErrSeekFailed
  | ErrReadFailed
  | ErrDetectedTypeNotAllowed string
  | ErrReadModelDir
  | ErrModelDirNotFound string
  | ErrModelNotFound string
  | ErrGetModel error
  | ErrDecodeImage error
  | ErrPreprocessImage error
  | ErrInferenceFailed error
  | ErrUnsupportedImageFormat
  | ErrEncodeProcessedImage
  | ErrNoValidPredictions
  | ErrResultNotFound string

subsection \<open>image_processor.go\<close>

record float_ops =
  rnd32 :: "real \<Rightarrow> real"
  mathExp :: "real \<Rightarrow> real"

definition exact_ops :: float_ops where
  "exact_ops = \<lparr>rnd32 = (\<lambda>x. x), mathExp = exp\<rparr>"

record ClassificationPrediction =
  ClassIndex :: nat
  ClassName :: string
  Probability :: real
  Confidence :: real

text \<open>\<open>fastExp\<close>: the two clamps, then \<open>math.Exp\<close>.\<close>

definition fastExp :: "(real \<Rightarrow> real) \<Rightarrow> real \<Rightarrow> real" where
  "fastExp mexp x = (if x < - 700 then 0 else if x > 700 then 10 ^ 300 else mexp x)"

text \<open>
  \<open>applySoftmax\<close> reads \<open>logits[0]\<close> before anything else: on the empty slice Go panics
  with an index out of range. The first loop keeps the running maximum, the second
  fills \<open>expVals\<close> and accumulates \<open>expSum\<close> from zero, the third divides. (A division
  by a zero \<open>expSum\<close> would give NaN or an infinity in Go and gives \<open>0\<close> here; with a
  rounding that keeps \<open>1\<close> the sum is at least \<open>1\<close>, since the maximum contributes
  \<open>exp 0\<close>. The differences \<open>val - maxVal\<close> are never positive, so the upper clamp of
  \<open>fastExp\<close> is not reached from here.)
\<close>

definition maxLoop :: "real list \<Rightarrow> real \<Rightarrow> real" where
  "maxLoop logits maxVal0 = fold (\<lambda>val maxVal. if val > maxVal then val else maxVal) logits maxVal0"

definition applySoftmax :: "float_ops \<Rightarrow> real list \<Rightarrow> error + real list" where
  "applySoftmax fp logits =
     (case logits of
        [] \<Rightarrow> Inl PanicIndexOutOfRange
      | l0 # _ \<Rightarrow>
          let maxVal = maxLoop logits l0;
              expVals = map (\<lambda>val. rnd32 fp (fastExp (mathExp fp) (rnd32 fp (val - maxVal)))) logits;
              expSum = fold (\<lambda>expVal s. rnd32 fp (s + expVal)) expVals 0;
              probabilities = map (\<lambda>expVal. rnd32 fp (expVal / expSum)) expVals
          in Inr probabilities)"

text \<open>
  The sort of \<open>PostprocessPredictions\<close> is two nested index loops that exchange
  \<open>results[i]\<close> and \<open>results[j]\<close> whenever the later one has the strictly larger
  probability. \<open>sortInner i j\<close> is the inner loop from index \<open>j\<close> on, \<open>sortOuter i\<close> the
  outer loop from index \<open>i\<close> on (its guard \<open>i < len(results) - 1\<close> is on Go's signed
  \<open>int\<close>, hence \<open>i + 1 < length\<close> on naturals).
\<close>

function sortInner :: "nat \<Rightarrow> nat \<Rightarrow> ClassificationPrediction list \<Rightarrow> ClassificationPrediction list" where
  "sortInner i j results =
     (if j < length results
      then sortInner i (j + 1)
             (if Probability (results ! j) > Probability (results ! i)
              then results[i := results ! j, j := results ! i]
              else results)
      else results)"
  by pat_completeness auto
termination
  by (relation "measure (\<lambda>(i, j, results). length results - j)") auto

declare sortInner.simps [simp del]

lemma length_sortInner: "length (sortInner i j results) = length results"
proof (induction i j results rule: sortInner.induct)
  case (1 i j results)
  show ?case
  proof (cases "j < length results")
    case True
    with "1" show ?thesis
      by (subst sortInner.simps) simp
  next
    case False
    then show ?thesis
      by (subst sortInner.simps) simp
  qed
qed

function sortOuter :: "nat \<Rightarrow> ClassificationPrediction list \<Rightarrow> ClassificationPrediction list" where
  "sortOuter i results =
     (if i + 1 < length results
      then sortOuter (i + 1) (sortInner i (i + 1) results)
      else results)"
  by pat_completeness auto
termination
  by (relation "measure (\<lambda>(i, results). length results - i)") (auto simp: length_sortInner)

declare sortOuter.simps [simp del]

text \<open>
  \<open>PostprocessPredictions\<close>: the length check, the default for a non-positive \<open>topK\<close>,
  the softmax, one record per probability (the guard \<open>i < len(classNames)\<close> of the loop
  is kept), the sort, the cut to the first \<open>topK\<close>.
\<close>

definition makeResults :: "real list \<Rightarrow> string list \<Rightarrow> ClassificationPrediction list" where
  "makeResults softmaxPreds classNames =
     map (\<lambda>(i, prob). \<lparr>ClassIndex = i, ClassName = classNames ! i,
                        Probability = prob, Confidence = prob\<rparr>)
         (filter (\<lambda>(i, prob). i < length classNames) (enumerate 0 softmaxPreds))"

definition PostprocessPredictions ::
    "float_ops \<Rightarrow> real list \<Rightarrow> string list \<Rightarrow> int \<Rightarrow> error + ClassificationPrediction list" where
  "PostprocessPredictions fp predictions classNames topK0 =
     (if length predictions \<noteq> length classNames
      then Inl (ErrLengthMismatch (length predictions) (length classNames))
      else
        let topK = (if topK0 \<le> 0 then 5 else topK0) in
        case applySoftmax fp predictions of
          Inl e \<Rightarrow> Inl e
        | Inr softmaxPreds \<Rightarrow>
            let results = sortOuter 0 (makeResults softmaxPreds classNames)
            in Inr (if int (length results) > topK then take (nat topK) results else results))"

subsection \<open>config.go and image_service.go\<close>

type_synonym byte = "8 word"

record UploadConfig =
  MaxFileSize :: int
  AllowedTypes :: "string list"

text \<open>The values \<open>Load\<close> gives when the environment sets neither variable.\<close>

definition defaultUploadConfig :: UploadConfig where
  "defaultUploadConfig =
     \<lparr>MaxFileSize = 10485760, AllowedTypes = [''image/jpeg'', ''image/png'', ''image/webp'']\<rparr>"

text \<open>
  The multipart header carries the declared size and the declared content type. The
  file is its bytes, and three flags saying which of the calls \<open>Seek\<close>, \<open>Read\<close>, \<open>Seek\<close>
  of \<open>ValidateImage\<close> fails (a \<open>Read\<close> that ends with \<open>io.EOF\<close> does not fail). A
  \<open>Read\<close> into the buffer of 512 bytes that succeeds delivers the first 512 bytes of
  the file, or all of them when the file is shorter.
\<close>

record FileHeader =
  Size :: int
  ContentType :: string

record File =
  fileBytes :: "byte list"
  firstSeekFails :: bool
  readFails :: bool
  secondSeekFails :: bool

fun isAllowedLoop :: "string list \<Rightarrow> string \<Rightarrow> bool" where
  "isAllowedLoop [] contentType = False"
| "isAllowedLoop (allowedType # rest) contentType =
     (if contentType = allowedType then True else isAllowedLoop rest contentType)"

definition isAllowedType :: "UploadConfig \<Rightarrow> string \<Rightarrow> bool" where
  "isAllowedType cfg contentType = isAllowedLoop (AllowedTypes cfg) contentType"

definition RIFF :: "byte list" where
  "RIFF = [0x52, 0x49, 0x46, 0x46]"

definition WEBP :: "byte list" where
  "WEBP = [0x57, 0x45, 0x42, 0x50]"

definition detectMimeType :: "byte list \<Rightarrow> string" where
  "detectMimeType data =
     (if length data < 4 then ''application/octet-stream''
      else if prefix [0xFF, 0xD8, 0xFF] data then ''image/jpeg''
      else if prefix [0x89, 0x50, 0x4E, 0x47] data then ''image/png''
      else if length data \<ge> 12 \<and> prefix RIFF data \<and> take 4 (drop 8 data) = WEBP
        then ''image/webp''
      else ''application/octet-stream'')"

text \<open>\<open>ValidateImage\<close> returns Go's \<open>error\<close>: \<open>None\<close> is \<open>nil\<close>.\<close>

definition ValidateImage :: "UploadConfig \<Rightarrow> File \<Rightarrow> FileHeader \<Rightarrow> error option" where
  "ValidateImage cfg file header =
     (if Size header > MaxFileSize cfg
        then Some (ErrFileTooLarge (Size header) (MaxFileSize cfg))
      else if \<not> isAllowedType cfg (ContentType header)
        then Some (ErrUnsupportedFileType (ContentType header))
      else if firstSeekFails file then Some ErrSeekFailed
      else if readFails file then Some ErrReadFailed
      else if secondSeekFails file then Some ErrSeekFailed
      else
        let buffer = take 512 (fileBytes file);
            detectedType = detectMimeType buffer
        in if \<not> isAllowedType cfg detectedType
           then Some (ErrDetectedTypeNotAllowed detectedType)
           else None)"




subsection \<open>models.go and model_service.go\<close>

record ModelInfo =
  ID :: string
  Name :: string
  Version :: string
  Description :: string
  InputShape :: "int list"
  OutputShape :: "int list"
  Classes :: "string list"
  LoadedAt :: int
  Metadata :: "(string \<times> string) list"

text \<open>
  \<open>ModelHealth\<close> and \<open>LoadedModel\<close> both have fields \<open>LastUsed\<close>, \<open>Predictions\<close> and
  \<open>Errors\<close>; those of \<open>ModelHealth\<close> are prefixed with \<open>Health_\<close> here.
\<close>

record ModelHealth =
  Status :: string
  Health_LastUsed :: int
  Health_Predictions :: int
  AvgTime :: real
  Health_Errors :: int

record LoadedModel =
  Info :: ModelInfo
  Health :: ModelHealth
  LastUsed :: int
  Predictions :: int
  Errors :: int
  TotalTime :: real


text \<open>
  The registry is Go's \<open>map[string]*LoadedModel\<close>, here an association list with one
  pair per key; \<open>models[k] = v\<close> replaces the pair of \<open>k\<close> or appends one. Go leaves
  the order in which \<open>range\<close> visits a map open; the list's order is one such order.
\<close>

record ModelService =
  models :: "(string \<times> LoadedModel) list"
  defaultModel :: string

fun mapStore :: "string \<Rightarrow> 'v \<Rightarrow> (string \<times> 'v) list \<Rightarrow> (string \<times> 'v) list" where
  "mapStore k v [] = [(k, v)]"
| "mapStore k v ((k', v') # rest) =
     (if k' = k then (k, v) # rest else (k', v') # mapStore k v rest)"

definition newModelService :: ModelService where
  "newModelService = \<lparr>models = [], defaultModel = []\<rparr>"

definition getDefaultClasses :: "string list" where
  "getDefaultClasses =
     [''cat'', ''dog'', ''bird'', ''car'', ''truck'', ''airplane'', ''boat'', ''train'',
      ''bicycle'', ''motorcycle'', ''person'', ''horse'', ''sheep'', ''cow'', ''elephant'',
      ''bear'', ''zebra'', ''giraffe'', ''backpack'', ''umbrella'', ''handbag'', ''tie'',
      ''suitcase'', ''frisbee'', ''skis'', ''snowboard'', ''sports ball'', ''kite'',
      ''baseball bat'', ''baseball glove'', ''skateboard'', ''surfboard'', ''tennis racket'',
      ''bottle'', ''wine glass'', ''cup'', ''fork'', ''knife'', ''spoon'', ''bowl'',
      ''banana'', ''apple'', ''sandwich'', ''orange'', ''broccoli'', ''carrot'',
      ''hot dog'', ''pizza'', ''donut'', ''cake'', ''chair'', ''couch'', ''potted plant'']"

definition freshHealth :: "int \<Rightarrow> ModelHealth" where
  "freshHealth now =
     \<lparr>Status = ''healthy'', Health_LastUsed = now, Health_Predictions = 0,
      AvgTime = 0, Health_Errors = 0\<rparr>"

definition createDefaultMetadata :: "string \<Rightarrow> int \<Rightarrow> string \<Rightarrow> ModelInfo" where
  "createDefaultMetadata cfgVersion now modelID =
     \<lparr>ID = modelID, Name = ''Model '' @ modelID, Version = cfgVersion,
      Description = ''Image classification model'',
      InputShape = [224, 224, 3], OutputShape = [1000],
      Classes = getDefaultClasses, LoadedAt = now, Metadata = []\<rparr>"

text \<open>\<open>getDefaultClasses()[:50]\<close> is in range: the list has 53 names.\<close>

definition createDummyModel :: "int \<Rightarrow> ModelService \<Rightarrow> ModelService" where
  "createDummyModel now s =
     (let dummyModel =
            \<lparr>Info = \<lparr>ID = ''dummy'', Name = ''Dummy Model'', Version = ''1.0.0'',
                     Description = ''Development dummy model for testing'',
                     InputShape = [224, 224, 3], OutputShape = [50],
                     Classes = take 50 getDefaultClasses, LoadedAt = now,
                     Metadata = [(''type'', ''dummy'')]\<rparr>,
             Health = freshHealth now,
             LastUsed = now, Predictions = 0, Errors = 0, TotalTime = 0\<rparr>
      in s\<lparr>models := mapStore ''dummy'' dummyModel (models s), defaultModel := ''dummy''\<rparr>)"

text \<open>
  What the file system shows of the model directory: it is absent, or it cannot be
  listed, or it is listed. Of each entry: its name, whether it is a directory,
  whether \<open>os.Stat\<close> finds it when \<open>loadModel\<close> looks, and the \<open>ModelInfo\<close> parsed from
  its \<open>metadata.json\<close> (\<open>None\<close> when the file cannot be read or parsed).
\<close>

record DirEntry =
  entryName :: string
  entryIsDir :: bool
  entryFound :: bool
  entryMetadata :: "ModelInfo option"

datatype ModelDir = DirAbsent | DirUnreadable | DirListing "DirEntry list"

definition loadModelMetadata :: "int \<Rightarrow> DirEntry \<Rightarrow> error + ModelInfo" where
  "loadModelMetadata now entry =
     (case entryMetadata entry of
        None \<Rightarrow> Inl ErrReadFailed
      | Some metadata \<Rightarrow> Inr (metadata\<lparr>LoadedAt := now\<rparr>))"

definition loadModel :: "string \<Rightarrow> int \<Rightarrow> DirEntry \<Rightarrow> ModelService \<Rightarrow> error + ModelService" where
  "loadModel cfgVersion now entry s =
     (let modelID = entryName entry in
      if \<not> entryFound entry then Inl (ErrModelDirNotFound modelID)
      else
        let metadata = (case loadModelMetadata now entry of
                          Inl e \<Rightarrow> createDefaultMetadata cfgVersion now modelID
                        | Inr m \<Rightarrow> m);
            loadedModel = \<lparr>Info = metadata, Health = freshHealth now,
                           LastUsed = now, Predictions = 0, Errors = 0, TotalTime = 0\<rparr>
        in Inr (s\<lparr>models := mapStore modelID loadedModel (models s)\<rparr>))"

text \<open>The loop of \<open>LoadModels\<close> over the entries, with its counter of loaded models.\<close>

fun loadLoop :: "string \<Rightarrow> int \<Rightarrow> DirEntry list \<Rightarrow> ModelService \<times> nat \<Rightarrow> ModelService \<times> nat" where
  "loadLoop cfgVersion now [] (s, loadedCount) = (s, loadedCount)"
| "loadLoop cfgVersion now (entry # entries) (s, loadedCount) =
     (if \<not> entryIsDir entry then loadLoop cfgVersion now entries (s, loadedCount)
      else
        case loadModel cfgVersion now entry s of
          Inl e \<Rightarrow> loadLoop cfgVersion now entries (s, loadedCount)
        | Inr s' \<Rightarrow>
            loadLoop cfgVersion now entries
              (if defaultModel s' = [] then s'\<lparr>defaultModel := entryName entry\<rparr> else s',
               loadedCount + 1))"

definition LoadModels :: "string \<Rightarrow> int \<Rightarrow> ModelDir \<Rightarrow> ModelService \<Rightarrow> error option \<times> ModelService" where
  "LoadModels cfgVersion now dir s =
     (case dir of
        DirAbsent \<Rightarrow> (None, createDummyModel now s)
      | DirUnreadable \<Rightarrow> (Some ErrReadModelDir, s)
      | DirListing entries \<Rightarrow>
          (case loadLoop cfgVersion now entries (s, 0) of
             (s', loadedCount) \<Rightarrow>
               (None, if loadedCount = 0 then createDummyModel now s' else s')))"

text \<open>\<open>NewModelService\<close>: an empty registry, then \<open>LoadModels\<close>, whose error is only logged.\<close>

definition NewModelService :: "string \<Rightarrow> int \<Rightarrow> ModelDir \<Rightarrow> ModelService" where
  "NewModelService cfgVersion now dir = snd (LoadModels cfgVersion now dir newModelService)"




definition healthTier :: "real \<Rightarrow> string" where
  "healthTier errorRate =
     (if errorRate > 0.5 then ''unhealthy''
      else if errorRate > 0.1 then ''degraded''
      else ''healthy'')"

definition UpdateModelStats :: "int \<Rightarrow> string \<Rightarrow> real \<Rightarrow> bool \<Rightarrow> ModelService \<Rightarrow> ModelService" where
  "UpdateModelStats now modelID processingTime success s =
     (case map_of (models s) modelID of
        None \<Rightarrow> s
      | Some model \<Rightarrow>
          let m1 = model\<lparr>LastUsed := now,
                         Health := (Health model)\<lparr>Health_LastUsed := now\<rparr>\<rparr>;
              m2 = m1\<lparr>Predictions := Predictions m1 + 1,
                      Health := (Health m1)\<lparr>Health_Predictions := Health_Predictions (Health m1) + 1\<rparr>\<rparr>;
              m3 = m2\<lparr>TotalTime := TotalTime m2 + processingTime\<rparr>;
              m4 = (if success
                    then m3\<lparr>Health := (Health m3)\<lparr>AvgTime := TotalTime m3 / real_of_int (Predictions m3)\<rparr>\<rparr>
                    else m3\<lparr>Errors := Errors m3 + 1,
                            Health := (Health m3)\<lparr>Health_Errors := Health_Errors (Health m3) + 1\<rparr>\<rparr>);
              errorRate = real_of_int (Errors m4) / real_of_int (Predictions m4);
              m5 = m4\<lparr>Health := (Health m4)\<lparr>Status := healthTier errorRate\<rparr>\<rparr>
          in s\<lparr>models := mapStore modelID m5 (models s)\<rparr>)"


text \<open>
  A sequence of calls of \<open>UpdateModelStats\<close> for one model, each with its clock reading,
  its processing time and its outcome, and the number of failures in it.
\<close>

fun recordOutcomes :: "string \<Rightarrow> (int \<times> real \<times> bool) list \<Rightarrow> ModelService \<Rightarrow> ModelService" where
  "recordOutcomes modelID [] s = s"
| "recordOutcomes modelID ((now, processingTime, success) # calls) s =
     recordOutcomes modelID calls (UpdateModelStats now modelID processingTime success s)"

definition failures :: "(int \<times> real \<times> bool) list \<Rightarrow> nat" where
  "failures calls = length (filter (\<lambda>(now, processingTime, success). \<not> success) calls)"

subsection \<open>handlers.go: the health snapshot\<close>




subsection \<open>prediction_service.go\<close>

text \<open>
  The fields of \<open>ClassificationResult\<close>, \<open>ImageMetadata\<close> and \<open>PredictionResult\<close> whose
  names are taken by an earlier record are prefixed with \<open>Res_\<close>, \<open>Meta_\<close> and \<open>Result_\<close>.
\<close>

record ClassificationResult =
  Res_ClassName :: string
  Label :: string
  Res_Description :: string
  Res_Confidence :: real
  Res_Probability :: real

record ImageMetadata =
  Filename :: string
  Meta_Size :: int
  Width :: int
  Height :: int
  Format :: string
  Meta_ContentType :: string
  UploadedAt :: int

record PredictionResult =
  Result_ID :: string
  Result_Predictions :: "ClassificationResult list"
  Result_Metadata :: ImageMetadata
  ProcessedAt :: int
  ProcessTime :: real
  Result_ModelInfo :: ModelInfo

record PredictionService =
  modelService :: ModelService
  results :: "string \<rightharpoonup> PredictionResult"

















subsection \<open>Concrete instances\<close>











section \<open>Properties\<close>

subsection \<open>The exchange sort of \<open>PostprocessPredictions\<close>\<close>

lemma mset_sortInner: "i < j \<Longrightarrow> mset (sortInner i j rs) = mset rs"
proof (induction i j rs rule: sortInner.induct)
  case (1 i j rs)
  show ?case
  proof (cases "j < length rs")
    case True
    let ?r = "if Probability (rs ! j) > Probability (rs ! i)
              then rs[i := rs ! j, j := rs ! i] else rs"
    from True "1.prems" have "mset ?r = mset rs"
      by (simp add: mset_swap)
    moreover from "1.IH" [OF True] "1.prems" have "mset (sortInner i (j + 1) ?r) = mset ?r"
      by simp
    ultimately show ?thesis
      using True by (subst sortInner.simps) simp
  next
    case False
    then show ?thesis
      by (subst sortInner.simps) simp
  qed
qed

lemma nth_sortInner_before:
  "k < i \<Longrightarrow> i < j \<Longrightarrow> sortInner i j rs ! k = rs ! k"
proof (induction i j rs rule: sortInner.induct)
  case (1 i j rs)
  show ?case
  proof (cases "j < length rs")
    case True
    let ?r = "if Probability (rs ! j) > Probability (rs ! i)
              then rs[i := rs ! j, j := rs ! i] else rs"
    from "1.prems" have "?r ! k = rs ! k"
      by simp
    moreover from "1.IH" [OF True] "1.prems" have "sortInner i (j + 1) ?r ! k = ?r ! k"
      by simp
    ultimately show ?thesis
      using True by (subst sortInner.simps) simp
  next
    case False
    then show ?thesis
      by (subst sortInner.simps) simp
  qed
qed

lemma sortInner_pivot:
  "i < j \<Longrightarrow>
   (\<forall>k. i < k \<and> k < j \<and> k < length rs \<longrightarrow> Probability (rs ! k) \<le> Probability (rs ! i)) \<Longrightarrow>
   i < k \<Longrightarrow> k < length rs \<Longrightarrow>
   Probability (sortInner i j rs ! k) \<le> Probability (sortInner i j rs ! i)"
proof (induction i j rs rule: sortInner.induct)
  case (1 i j rs)
  show ?case
  proof (cases "j < length rs")
    case True
    let ?r = "if Probability (rs ! j) > Probability (rs ! i)
              then rs[i := rs ! j, j := rs ! i] else rs"
    have len: "length ?r = length rs" by (simp split: if_splits)
    have inv: "\<forall>m. i < m \<and> m < j + 1 \<and> m < length ?r \<longrightarrow> Probability (?r ! m) \<le> Probability (?r ! i)"
    proof (intro allI impI)
      fix m assume m: "i < m \<and> m < j + 1 \<and> m < length ?r"
      with len have mlen: "m < length rs" by simp
      show "Probability (?r ! m) \<le> Probability (?r ! i)"
      proof (cases "m = j")
        case True
        with m "1.prems"(1) show ?thesis by (auto simp: nth_list_update)
      next
        case False
        with m have "m < j" by simp
        with m mlen "1.prems"(2) have "Probability (rs ! m) \<le> Probability (rs ! i)"
          by blast
        with m \<open>m < j\<close> "1.prems"(1) True show ?thesis
          by (auto simp: nth_list_update)
      qed
    qed
    from "1.IH" [OF True _ inv] "1.prems" len
    have "Probability (sortInner i (j + 1) ?r ! k) \<le> Probability (sortInner i (j + 1) ?r ! i)"
      by simp
    then show ?thesis
      using True by (subst (1 2) sortInner.simps) simp
  next
    case False
    with "1.prems" show ?thesis
      by (subst (1 2) sortInner.simps) simp
  qed
qed

lemma take_sortInner: "i < j \<Longrightarrow> take i (sortInner i j rs) = take i rs"
  by (simp add: list_eq_iff_nth_eq length_sortInner nth_sortInner_before)

lemma mset_drop_sortInner:
  "i < j \<Longrightarrow> mset (drop i (sortInner i j rs)) = mset (drop i rs)"
proof -
  assume ij: "i < j"
  have "mset (take i (sortInner i j rs)) + mset (drop i (sortInner i j rs))
        = mset (take i rs) + mset (drop i rs)"
    using mset_sortInner [OF ij, of rs]
    by (metis append_take_drop_id mset_append)
  with take_sortInner [OF ij, of rs] show ?thesis
    by simp
qed

lemma sortInner_step:
  assumes inv: "\<forall>a b. a < i \<and> a < b \<and> b < length rs \<longrightarrow>
                  Probability (rs ! b) \<le> Probability (rs ! a)"
    and a: "a < i + 1" and ab: "a < b" and b: "b < length rs"
  shows "Probability (sortInner i (i + 1) rs ! b) \<le> Probability (sortInner i (i + 1) rs ! a)"
proof (cases "a = i")
  case True
  with ab b show ?thesis
    using sortInner_pivot [of i "i + 1" rs b] by simp
next
  case False
  with a have ai: "a < i" by simp
  then have ra: "sortInner i (i + 1) rs ! a = rs ! a"
    by (simp add: nth_sortInner_before)
  show ?thesis
  proof (cases "b < i")
    case True
    then have "sortInner i (i + 1) rs ! b = rs ! b"
      by (simp add: nth_sortInner_before)
    with ra inv ai ab b show ?thesis by simp
  next
    case False
    then have "sortInner i (i + 1) rs ! b = drop i (sortInner i (i + 1) rs) ! (b - i)"
      using b by (simp add: length_sortInner)
    moreover have "b - i < length (drop i (sortInner i (i + 1) rs))"
      using False b by (simp add: length_sortInner)
    ultimately have "sortInner i (i + 1) rs ! b \<in> set (drop i (sortInner i (i + 1) rs))"
      by (metis nth_mem)
    then have "sortInner i (i + 1) rs ! b \<in> set (drop i rs)"
      using mset_drop_sortInner [of i "i + 1" rs] by (metis lessI Suc_eq_plus1 set_mset_mset)
    then obtain c where c: "c < length (drop i rs)" "drop i rs ! c = sortInner i (i + 1) rs ! b"
      by (auto simp: in_set_conv_nth)
    then have "sortInner i (i + 1) rs ! b = rs ! (i + c)" "i + c < length rs"
      by simp_all
    with ra inv ai show ?thesis
      by (metis trans_less_add1)
  qed
qed

lemma length_sortOuter: "length (sortOuter i rs) = length rs"
proof (induction i rs rule: sortOuter.induct)
  case (1 i rs)
  then show ?case
    by (subst sortOuter.simps) (simp add: length_sortInner)
qed

lemma mset_sortOuter: "mset (sortOuter i rs) = mset rs"
proof (induction i rs rule: sortOuter.induct)
  case (1 i rs)
  then show ?case
    by (subst sortOuter.simps) (simp add: mset_sortInner)
qed

lemma sortOuter_ordered:
  "(\<forall>a b. a < i \<and> a < b \<and> b < length rs \<longrightarrow>
      Probability (rs ! b) \<le> Probability (rs ! a)) \<Longrightarrow>
   a < b \<Longrightarrow> b < length rs \<Longrightarrow>
   Probability (sortOuter i rs ! b) \<le> Probability (sortOuter i rs ! a)"
proof (induction i rs rule: sortOuter.induct)
  case (1 i rs)
  show ?case
  proof (cases "i + 1 < length rs")
    case True
    have "\<forall>a b. a < i + 1 \<and> a < b \<and> b < length (sortInner i (i + 1) rs) \<longrightarrow>
            Probability (sortInner i (i + 1) rs ! b) \<le> Probability (sortInner i (i + 1) rs ! a)"
      using sortInner_step [OF "1.prems"(1)] by (simp add: length_sortInner)
    from "1.IH" [OF True this] "1.prems"(2,3) True show ?thesis
      by (subst (1 2) sortOuter.simps) (simp add: length_sortInner)
  next
    case False
    with "1.prems" have "a < i" by simp
    with "1.prems" False show ?thesis
      by (subst (1 2) sortOuter.simps) simp
  qed
qed

lemma sorted_sortOuter:
  "sorted_wrt (\<lambda>x y. Probability y \<le> Probability x) (sortOuter 0 rs)"
  unfolding sorted_wrt_iff_nth_less
  using sortOuter_ordered [of 0 rs] by (simp add: length_sortOuter)



subsection \<open>Claims on \<open>image_processor.go\<close>\<close>

text \<open>
  Claim C4 says that \<open>PostprocessPredictions\<close> lists entries of equal probability by
  ascending class index. It does not: on the scores \<open>0, 0, 1000\<close> the probabilities are
  \<open>0, 0, 1\<close> (the two differences \<open>-1000\<close> are below the clamp of \<open>fastExp\<close>, and
  \<open>exp 0 = 1\<close>, so no operation rounds), the pass of the sort for \<open>i = 0\<close>
  exchanges the entries 0 and 2, and the tied entries come out as index 1, then
  index 0.
\<close>

theorem PostprocessPredictions_ties_counterexample:
  "PostprocessPredictions exact_ops [0, 0, 1000] [''cat'', ''dog'', ''bird''] 3 =
     Inr [\<lparr>ClassIndex = 2, ClassName = ''bird'', Probability = 1, Confidence = 1\<rparr>,
          \<lparr>ClassIndex = 1, ClassName = ''dog'', Probability = 0, Confidence = 0\<rparr>,
          \<lparr>ClassIndex = 0, ClassName = ''cat'', Probability = 0, Confidence = 0\<rparr>]"
  by (simp add: PostprocessPredictions_def applySoftmax_def maxLoop_def fastExp_def exact_ops_def
      makeResults_def enumerate_eq_zip sortOuter.simps sortInner.simps Let_def)

text \<open>
  Claim C4 as amended: for score and class-name lists of the same length, not empty,
  and any rounding, \<open>PostprocessPredictions\<close> returns the first \<open>topK\<close> entries (the first
  five when \<open>topK\<close> is not positive) of a rearrangement of the per-class entries that is
  sorted by probability, largest first. Nothing is said on the order of entries of
  equal probability.
\<close>

theorem PostprocessPredictions_sorted_prefix:
  assumes "predictions \<noteq> []" and "length predictions = length classNames"
  shows "\<exists>softmaxPreds ranked.
           applySoftmax fp predictions = Inr softmaxPreds \<and>
           mset ranked = mset (makeResults softmaxPreds classNames) \<and>
           sorted_wrt (\<lambda>x y. Probability y \<le> Probability x) ranked \<and>
           PostprocessPredictions fp predictions classNames topK =
             Inr (take (nat (if topK \<le> 0 then 5 else topK)) ranked)"
proof -
  from assms(1) obtain softmaxPreds where sm: "applySoftmax fp predictions = Inr softmaxPreds"
    by (cases predictions) (simp_all add: applySoftmax_def Let_def)
  let ?ranked = "sortOuter 0 (makeResults softmaxPreds classNames)"
  have "PostprocessPredictions fp predictions classNames topK =
          Inr (take (nat (if topK \<le> 0 then 5 else topK)) ?ranked)"
    using assms(2) sm by (simp add: PostprocessPredictions_def Let_def)
  moreover have "mset ?ranked = mset (makeResults softmaxPreds classNames)"
    by (rule mset_sortOuter)
  moreover have "sorted_wrt (\<lambda>x y. Probability y \<le> Probability x) ?ranked"
    by (rule sorted_sortOuter)
  ultimately show ?thesis
    using sm by blast
qed

theorem PostprocessPredictions_sorted_prefix_witness:
  "[0, 0, 1000] \<noteq> ([] :: real list) \<and>
   length [0, 0, 1000 :: real] = length [''cat'', ''dog'', ''bird''] \<and>
   (\<exists>softmaxPreds ranked.
      applySoftmax exact_ops [0, 0, 1000] = Inr softmaxPreds \<and>
      mset ranked = mset (makeResults softmaxPreds [''cat'', ''dog'', ''bird'']) \<and>
      sorted_wrt (\<lambda>x y. Probability y \<le> Probability x) ranked \<and>
      PostprocessPredictions exact_ops [0, 0, 1000] [''cat'', ''dog'', ''bird''] 2 =
        Inr (take (nat (if (2::int) \<le> 0 then 5 else 2)) ranked))"
  using PostprocessPredictions_sorted_prefix
          [of "[0, 0, 1000]" "[''cat'', ''dog'', ''bird'']" exact_ops 2]
  by simp


text \<open>
  Claim C9 says that \<open>PostprocessPredictions\<close> returns normally on every pair of lists
  of the same length, the two empty lists included. On the two empty lists the
  length check passes and \<open>applySoftmax\<close> reads \<open>logits[0]\<close> of an empty slice: the call
  panics, for every \<open>topK\<close>.
\<close>

theorem PostprocessPredictions_empty_panics:
  "PostprocessPredictions fp [] [] topK = Inl PanicIndexOutOfRange"
  by (simp add: PostprocessPredictions_def applySoftmax_def)

subsection \<open>Lemmas on \<open>image_service.go\<close>\<close>

lemma isAllowedLoop_iff: "isAllowedLoop allowed contentType \<longleftrightarrow> contentType \<in> set allowed"
  by (induction allowed) auto

lemma isAllowedType_iff: "isAllowedType cfg contentType \<longleftrightarrow> contentType \<in> set (AllowedTypes cfg)"
  by (simp add: isAllowedType_def isAllowedLoop_iff)

lemma detect_jpeg: "detectMimeType (0xFF # 0xD8 # 0xFF # b # rest) = ''image/jpeg''"
  by (simp add: detectMimeType_def)

lemma detect_png: "detectMimeType (0x89 # 0x50 # 0x4E # 0x47 # rest) = ''image/png''"
  by (simp add: detectMimeType_def)

lemma detect_webp: "detectMimeType (RIFF @ s1 # s2 # s3 # s4 # WEBP @ rest) = ''image/webp''"
  by (simp add: detectMimeType_def RIFF_def WEBP_def)

lemma detect_short: "length data < 4 \<Longrightarrow> detectMimeType data = ''application/octet-stream''"
  by (simp add: detectMimeType_def)


subsection \<open>Claims on \<open>image_service.go\<close>\<close>

text \<open>
  Claim C6: \<open>ValidateImage\<close> returns an error when the declared size exceeds the
  configured maximum (10 MiB by default), when the declared content type is not in
  the allow-list, and when the type sniffed from the first 512 bytes is not in the
  allow-list, the last also when the declared type is allowed; when the three checks
  pass and the two seeks and the read succeed, it returns \<open>nil\<close>. The sniffed type is
  JPEG on the bytes \<open>FF D8 FF\<close>, PNG on \<open>89 50 4E 47\<close>, WebP on \<open>RIFF\<close>, four bytes,
  \<open>WEBP\<close> (always on at least four bytes of data).
\<close>

theorem ValidateImage_checks:
  "(Size header > MaxFileSize cfg \<longrightarrow>
      ValidateImage cfg upload header = Some (ErrFileTooLarge (Size header) (MaxFileSize cfg))) \<and>
   (ContentType header \<notin> set (AllowedTypes cfg) \<longrightarrow> ValidateImage cfg upload header \<noteq> None) \<and>
   (detectMimeType (take 512 (fileBytes upload)) \<notin> set (AllowedTypes cfg) \<longrightarrow>
      ValidateImage cfg upload header \<noteq> None) \<and>
   (Size header \<le> MaxFileSize cfg \<and> ContentType header \<in> set (AllowedTypes cfg) \<and>
    \<not> firstSeekFails upload \<and> \<not> readFails upload \<and> \<not> secondSeekFails upload \<longrightarrow>
      ValidateImage cfg upload header =
        (if detectMimeType (take 512 (fileBytes upload)) \<in> set (AllowedTypes cfg) then None
         else Some (ErrDetectedTypeNotAllowed (detectMimeType (take 512 (fileBytes upload)))))) \<and>
   MaxFileSize defaultUploadConfig = 10 * 1024 * 1024 \<and>
   AllowedTypes defaultUploadConfig = [''image/jpeg'', ''image/png'', ''image/webp''] \<and>
   (\<forall>data. length data < 4 \<longrightarrow> detectMimeType data = ''application/octet-stream'') \<and>
   (\<forall>b rest. detectMimeType (0xFF # 0xD8 # 0xFF # b # rest) = ''image/jpeg'') \<and>
   (\<forall>rest. detectMimeType (0x89 # 0x50 # 0x4E # 0x47 # rest) = ''image/png'') \<and>
   (\<forall>s1 s2 s3 s4 rest. detectMimeType (RIFF @ s1 # s2 # s3 # s4 # WEBP @ rest) = ''image/webp'')"
  by (simp add: ValidateImage_def isAllowedType_iff Let_def defaultUploadConfig_def
      detect_jpeg detect_png detect_webp detect_short)


theorem ValidateImage_checks_witness:
  "ValidateImage defaultUploadConfig
     \<lparr>fileBytes = [0x89, 0x50, 0x4E, 0x47, 0x0D, 0x0A, 0x1A, 0x0A],
      firstSeekFails = False, readFails = False, secondSeekFails = False\<rparr>
     \<lparr>Size = 8, ContentType = ''image/png''\<rparr> = None \<and>
   ValidateImage defaultUploadConfig
     \<lparr>fileBytes = [0x47, 0x49, 0x46, 0x38, 0x39, 0x61],
      firstSeekFails = False, readFails = False, secondSeekFails = False\<rparr>
     \<lparr>Size = 6, ContentType = ''image/png''\<rparr> =
       Some (ErrDetectedTypeNotAllowed ''application/octet-stream'') \<and>
   ValidateImage defaultUploadConfig
     \<lparr>fileBytes = [0x89, 0x50, 0x4E, 0x47, 0x0D, 0x0A, 0x1A, 0x0A],
      firstSeekFails = False, readFails = False, secondSeekFails = False\<rparr>
     \<lparr>Size = 10485761, ContentType = ''image/png''\<rparr> =
       Some (ErrFileTooLarge 10485761 10485760)"
  using ValidateImage_checks
          [where header = "\<lparr>Size = 8, ContentType = ''image/png''\<rparr>" and cfg = defaultUploadConfig
              and upload = "\<lparr>fileBytes = [0x89, 0x50, 0x4E, 0x47, 0x0D, 0x0A, 0x1A, 0x0A],
                firstSeekFails = False, readFails = False, secondSeekFails = False\<rparr>"]
        ValidateImage_checks
          [where header = "\<lparr>Size = 6, ContentType = ''image/png''\<rparr>" and cfg = defaultUploadConfig
              and upload = "\<lparr>fileBytes = [0x47, 0x49, 0x46, 0x38, 0x39, 0x61],
                firstSeekFails = False, readFails = False, secondSeekFails = False\<rparr>"]
        ValidateImage_checks
          [where header = "\<lparr>Size = 10485761, ContentType = ''image/png''\<rparr>" and cfg = defaultUploadConfig
              and upload = "\<lparr>fileBytes = [0x89, 0x50, 0x4E, 0x47, 0x0D, 0x0A, 0x1A, 0x0A],
                firstSeekFails = False, readFails = False, secondSeekFails = False\<rparr>"]
  by (simp add: defaultUploadConfig_def detectMimeType_def)

subsection \<open>Lemmas on \<open>model_service.go\<close>\<close>

lemma map_of_mapStore: "map_of (mapStore k v m) = (map_of m)(k \<mapsto> v)"
  by (induction m) auto

lemma healthTier_iff:
  "(healthTier r = ''unhealthy'' \<longleftrightarrow> r > 1 / 2) \<and>
   (healthTier r = ''degraded'' \<longleftrightarrow> 1 / 10 < r \<and> r \<le> 1 / 2) \<and>
   (healthTier r = ''healthy'' \<longleftrightarrow> r \<le> 1 / 10)"
  by (simp add: healthTier_def)

lemma UpdateModelStats_found:
  assumes "map_of (models s) modelID = Some model"
  shows "\<exists>m1. map_of (models (UpdateModelStats now modelID t success s)) modelID = Some m1 \<and>
           Predictions m1 = Predictions model + 1 \<and>
           Health_Predictions (Health m1) = Health_Predictions (Health model) + 1 \<and>
           TotalTime m1 = TotalTime model + t \<and>
           Errors m1 = (if success then Errors model else Errors model + 1) \<and>
           Health_Errors (Health m1) =
             (if success then Health_Errors (Health model) else Health_Errors (Health model) + 1) \<and>
           Info m1 = Info model \<and>
           (success \<longrightarrow> AvgTime (Health m1) = TotalTime m1 / real_of_int (Predictions m1)) \<and>
           Status (Health m1) = healthTier (real_of_int (Errors m1) / real_of_int (Predictions m1))"
  using assms by (simp add: UpdateModelStats_def Let_def map_of_mapStore)

lemma recordOutcomes_totals:
  assumes "map_of (models s) modelID = Some model"
    and "calls = [] \<longrightarrow>
           Status (Health model) = healthTier (real_of_int (Errors model) / real_of_int (Predictions model))"
  shows "\<exists>m'. map_of (models (recordOutcomes modelID calls s)) modelID = Some m' \<and>
           Predictions m' = Predictions model + int (length calls) \<and>
           Errors m' = Errors model + int (failures calls) \<and>
           Status (Health m') = healthTier (real_of_int (Errors m') / real_of_int (Predictions m'))"
  using assms
proof (induction calls arbitrary: s model)
  case Nil
  then show ?case by (simp add: failures_def)
next
  case (Cons call calls)
  obtain now t success where call: "call = (now, t, success)"
    by (cases call) auto
  from UpdateModelStats_found [OF Cons.prems(1), of now t success]
  obtain m1 where m1: "map_of (models (UpdateModelStats now modelID t success s)) modelID = Some m1"
      "Predictions m1 = Predictions model + 1"
      "Errors m1 = (if success then Errors model else Errors model + 1)"
      "Status (Health m1) = healthTier (real_of_int (Errors m1) / real_of_int (Predictions m1))"
    by blast
  from Cons.IH [OF m1(1)] m1(4)
  obtain m' where m': "map_of (models (recordOutcomes modelID calls (UpdateModelStats now modelID t success s))) modelID = Some m'"
      "Predictions m' = Predictions m1 + int (length calls)"
      "Errors m' = Errors m1 + int (failures calls)"
      "Status (Health m') = healthTier (real_of_int (Errors m') / real_of_int (Predictions m'))"
    by blast
  from m' m1(2,3) call show ?case
    by (auto simp: failures_def)
qed




subsection \<open>Claims on \<open>model_service.go\<close>\<close>

text \<open>
  Claim C2: for a model of the registry, every call of \<open>UpdateModelStats\<close>, success or
  failure, adds one to the prediction count (of the model and of its health record),
  adds the processing time to the total, and on success stores the total time divided
  by the count as the average. After any sequence of calls that is not empty, with
  \<open>N\<close> the count and \<open>K\<close> the number of errors then stored (for a freshly loaded
  model, the length of the sequence and its number of failures), the status is
  \<open>unhealthy\<close> iff \<open>K / N > 0.5\<close>, \<open>degraded\<close> iff \<open>0.1 < K / N \<le> 0.5\<close>, and
  \<open>healthy\<close> iff \<open>K / N \<le> 0.1\<close>.
\<close>

theorem UpdateModelStats_counts_and_health:
  assumes "map_of (models s) modelID = Some model"
  shows "(\<exists>m1. map_of (models (UpdateModelStats now modelID t success s)) modelID = Some m1 \<and>
            Predictions m1 = Predictions model + 1 \<and>
            Health_Predictions (Health m1) = Health_Predictions (Health model) + 1 \<and>
            Errors m1 = (if success then Errors model else Errors model + 1) \<and>
            TotalTime m1 = TotalTime model + t \<and>
            (success \<longrightarrow> AvgTime (Health m1) = TotalTime m1 / real_of_int (Predictions m1))) \<and>
         (calls \<noteq> [] \<longrightarrow>
            (\<exists>m'. map_of (models (recordOutcomes modelID calls s)) modelID = Some m' \<and>
               Predictions m' = Predictions model + int (length calls) \<and>
               Errors m' = Errors model + int (failures calls) \<and>
               (Status (Health m') = ''unhealthy'' \<longleftrightarrow>
                  real_of_int (Errors m') / real_of_int (Predictions m') > 1 / 2) \<and>
               (Status (Health m') = ''degraded'' \<longleftrightarrow>
                  1 / 10 < real_of_int (Errors m') / real_of_int (Predictions m') \<and>
                  real_of_int (Errors m') / real_of_int (Predictions m') \<le> 1 / 2) \<and>
               (Status (Health m') = ''healthy'' \<longleftrightarrow>
                  real_of_int (Errors m') / real_of_int (Predictions m') \<le> 1 / 10)))"
proof (intro conjI impI)
  from UpdateModelStats_found [OF assms, of now t success]
  show "\<exists>m1. map_of (models (UpdateModelStats now modelID t success s)) modelID = Some m1 \<and>
            Predictions m1 = Predictions model + 1 \<and>
            Health_Predictions (Health m1) = Health_Predictions (Health model) + 1 \<and>
            Errors m1 = (if success then Errors model else Errors model + 1) \<and>
            TotalTime m1 = TotalTime model + t \<and>
            (success \<longrightarrow> AvgTime (Health m1) = TotalTime m1 / real_of_int (Predictions m1))"
    by blast
next
  assume "calls \<noteq> []"
  with recordOutcomes_totals [OF assms, of calls]
  obtain m' where m': "map_of (models (recordOutcomes modelID calls s)) modelID = Some m'"
      "Predictions m' = Predictions model + int (length calls)"
      "Errors m' = Errors model + int (failures calls)"
      "Status (Health m') = healthTier (real_of_int (Errors m') / real_of_int (Predictions m'))"
    by blast
  with healthTier_iff [of "real_of_int (Errors m') / real_of_int (Predictions m')"]
  show "\<exists>m'. map_of (models (recordOutcomes modelID calls s)) modelID = Some m' \<and>
               Predictions m' = Predictions model + int (length calls) \<and>
               Errors m' = Errors model + int (failures calls) \<and>
               (Status (Health m') = ''unhealthy'' \<longleftrightarrow>
                  real_of_int (Errors m') / real_of_int (Predictions m') > 1 / 2) \<and>
               (Status (Health m') = ''degraded'' \<longleftrightarrow>
                  1 / 10 < real_of_int (Errors m') / real_of_int (Predictions m') \<and>
                  real_of_int (Errors m') / real_of_int (Predictions m') \<le> 1 / 2) \<and>
               (Status (Health m') = ''healthy'' \<longleftrightarrow>
                  real_of_int (Errors m') / real_of_int (Predictions m') \<le> 1 / 10)"
    by simp
qed

theorem UpdateModelStats_counts_and_health_witness:
  "\<exists>m'. map_of (models (recordOutcomes ''dummy'' [(1, 5, True), (2, 0, False)]
                 (NewModelService ''latest'' 0 DirAbsent))) ''dummy'' = Some m' \<and>
         Predictions m' = 2 \<and> Errors m' = 1 \<and> Status (Health m') = ''degraded''"
proof -
  let ?s = "NewModelService ''latest'' 0 DirAbsent"
  let ?calls = "[(1, 5, True), (2, 0, False)] :: (int \<times> real \<times> bool) list"
  have reg: "map_of (models ?s) ''dummy'' = Some (snd (hd (models ?s)))"
    by (simp add: NewModelService_def LoadModels_def createDummyModel_def newModelService_def)
  have zero: "Predictions (snd (hd (models ?s))) = 0" "Errors (snd (hd (models ?s))) = 0"
    by (simp_all add: NewModelService_def LoadModels_def createDummyModel_def newModelService_def)
  have calls: "?calls \<noteq> []" "failures ?calls = 1" "length ?calls = 2"
    by (simp_all add: failures_def)
  from UpdateModelStats_counts_and_health [OF reg, of 1 5 True ?calls] calls(1)
  obtain m' where m': "map_of (models (recordOutcomes ''dummy'' ?calls ?s)) ''dummy'' = Some m'"
      "Predictions m' = Predictions (snd (hd (models ?s))) + int (length ?calls)"
      "Errors m' = Errors (snd (hd (models ?s))) + int (failures ?calls)"
      "Status (Health m') = ''degraded'' \<longleftrightarrow>
         1 / 10 < real_of_int (Errors m') / real_of_int (Predictions m') \<and>
         real_of_int (Errors m') / real_of_int (Predictions m') \<le> 1 / 2"
    by blast
  from m'(2,3) zero calls(2,3) have "Predictions m' = 2" "Errors m' = 1"
    by simp_all
  with m'(1,4) show ?thesis
    by simp
qed






subsection \<open>Lemmas on \<open>prediction_service.go\<close>\<close>















lemma sum_list_divide: "sum_list (map (\<lambda>p. f p / (c::real)) ps) = sum_list (map f ps) / c"
  by (induction ps) (auto simp: add_divide_distrib)










subsection \<open>Claims on \<open>prediction_service.go\<close>\<close>











subsection \<open>The softmax in exact arithmetic\<close>

text \<open>
  Claim C1 bounds by \<open>1e-6\<close> the distance from \<open>1\<close> of the sum of the \<open>float32\<close>
  probabilities. That distance is accumulated rounding error: it depends on how
  \<open>float32\<close> rounds each addition and each division, which this embedding leaves
  open, and it grows with the number of classes. What the embedding can say is the
  exact counterpart: without rounding the probabilities sum to \<open>1\<close>. That the list
  returned is sorted is proved above, with claim C4.
\<close>

lemma maxLoop_mem: "maxLoop xs m \<in> insert m (set xs)"
  unfolding maxLoop_def by (induction xs arbitrary: m) (auto split: if_splits)

lemma fold_add_sum_list: "fold (\<lambda>expVal s. s + expVal) es (t::real) = t + sum_list es"
  by (induction es arbitrary: t) auto

lemma fastExp_exp_nonneg: "0 \<le> fastExp exp x"
  by (simp add: fastExp_def)

lemma member_le_sum_list_real:
  "x \<in> set xs \<Longrightarrow> \<forall>y\<in>set xs. 0 \<le> y \<Longrightarrow> x \<le> (sum_list xs :: real)"
proof (induction xs)
  case Nil
  then show ?case by simp
next
  case (Cons a xs)
  have "0 \<le> sum_list xs"
    using Cons.prems(2) by (intro sum_list_nonneg) simp
  with Cons show ?case
    by auto
qed

lemma applySoftmax_exact_sum:
  assumes "applySoftmax exact_ops logits = Inr probabilities"
  shows "sum_list probabilities = 1"
proof -
  from assms obtain l0 ls where l: "logits = l0 # ls"
    by (cases logits) (simp_all add: applySoftmax_def)
  define M where "M = maxLoop logits l0"
  define es where "es = map (\<lambda>val. fastExp exp (val - M)) logits"
  have "M \<in> set logits"
    using maxLoop_mem [of logits l0] l by (auto simp: M_def)
  then have "(\<lambda>val. fastExp exp (val - M)) M \<in> set es"
    unfolding es_def set_map by (rule imageI)
  then have "1 \<in> set es"
    by (simp add: fastExp_def)
  moreover have "\<forall>y\<in>set es. 0 \<le> y"
    by (auto simp: es_def fastExp_exp_nonneg)
  ultimately have "1 \<le> sum_list es"
    by (rule member_le_sum_list_real)
  then have pos: "sum_list es \<noteq> 0" by simp
  from assms l have "probabilities = map (\<lambda>expVal. expVal / sum_list es) es"
    by (simp add: applySoftmax_def exact_ops_def Let_def fold_add_sum_list es_def M_def)
  then have "sum_list probabilities = sum_list es / sum_list es"
    by (simp add: sum_list_divide)
  with pos show ?thesis by simp
qed

end
